theory Spec2Isabelle
  imports Complex_Main
begin

section \<open>Python values used by the backend\<close>

text \<open>
  Strings are Python \<open>str\<close> values restricted to ASCII text: \<open>py_lower\<close>,
  \<open>py_strip\<close> and \<open>py_title\<close> follow \<open>str.lower\<close>, \<open>str.strip\<close> and
  \<open>str.title\<close> on ASCII and leave every other character alone.
  Exceptions are the subclasses of Python's \<open>Exception\<close>; they are values of the
  type \<open>pyerror\<close>, and a function that can raise returns \<open>pyerror + 'a\<close>.
\<close>

datatype pyerror =
    NameError string
  | KeyError
  | IndexError
  | TypeError
  | ValueError
  | AttributeError
  | TransportError

definition py_lower_char :: "char \<Rightarrow> char" where
  "py_lower_char c =
     (let n = (of_char c :: nat) in if 65 \<le> n \<and> n \<le> 90 then char_of (n + 32) else c)"

definition py_upper_char :: "char \<Rightarrow> char" where
  "py_upper_char c =
     (let n = (of_char c :: nat) in if 97 \<le> n \<and> n \<le> 122 then char_of (n - 32) else c)"

definition py_is_alpha :: "char \<Rightarrow> bool" where
  "py_is_alpha c =
     (let n = (of_char c :: nat) in (65 \<le> n \<and> n \<le> 90) \<or> (97 \<le> n \<and> n \<le> 122))"

definition py_is_space :: "char \<Rightarrow> bool" where
  "py_is_space c =
     (let n = (of_char c :: nat) in (9 \<le> n \<and> n \<le> 13) \<or> (28 \<le> n \<and> n \<le> 32))"

definition py_lower :: "string \<Rightarrow> string" where
  "py_lower s = map py_lower_char s"

definition py_strip :: "string \<Rightarrow> string" where
  "py_strip s = rev (dropWhile py_is_space (rev (dropWhile py_is_space s)))"

text \<open>\<open>str.title\<close>: a letter that follows a letter is lower-cased, any other letter
  is upper-cased; the flag says whether the previous character was a letter.\<close>

fun py_title_from :: "bool \<Rightarrow> string \<Rightarrow> string" where
  "py_title_from prev [] = []"
| "py_title_from prev (c # cs) =
     (if py_is_alpha c
      then (if prev then py_lower_char c else py_upper_char c) # py_title_from True cs
      else c # py_title_from False cs)"

definition py_title :: "string \<Rightarrow> string" where
  "py_title s = py_title_from False s"

text \<open>The \<open>in\<close> operator on two strings: \<open>py_in a b\<close> is \<open>a in b\<close>.\<close>

fun py_in :: "string \<Rightarrow> string \<Rightarrow> bool" where
  "py_in a [] = (a = [])"
| "py_in a (c # cs) = (take (length a) (c # cs) = a \<or> py_in a cs)"

text \<open>Truth value of an \<open>Optional[str]\<close>: \<open>None\<close> and the empty string are false.\<close>

definition py_bool_str :: "string option \<Rightarrow> bool" where
  "py_bool_str v = (case v of None \<Rightarrow> False | Some s \<Rightarrow> s \<noteq> [])"

section \<open>config.py\<close>

datatype RoutingProvider = MAPBOX | GOOGLE_MAPS | MAPMYINDIA | OSRM

fun provider_value :: "RoutingProvider \<Rightarrow> string" where
  "provider_value MAPBOX = ''mapbox''"
| "provider_value GOOGLE_MAPS = ''google''"
| "provider_value MAPMYINDIA = ''mapmyindia''"
| "provider_value OSRM = ''osrm''"

text \<open>Iterating over the enum class yields its members in definition order.\<close>

definition all_providers :: "RoutingProvider list" where
  "all_providers = [MAPBOX, GOOGLE_MAPS, MAPMYINDIA, OSRM]"

text \<open>\<open>RoutingProvider(value)\<close>: the member with that value, \<open>ValueError\<close> otherwise.\<close>

definition RoutingProvider_of :: "string \<Rightarrow> pyerror + RoutingProvider" where
  "RoutingProvider_of v =
     (case filter (\<lambda>p. provider_value p = v) all_providers of
        [] \<Rightarrow> Inl ValueError
      | p # _ \<Rightarrow> Inr p)"

record RoutingConfig =
  mapbox_api_key :: "string option"
  google_maps_api_key :: "string option"
  mapmyindia_api_key :: "string option"
  mapmyindia_client_id :: "string option"
  mapmyindia_client_secret :: "string option"
  osrm_base_url :: string
  preferred_provider :: RoutingProvider

text \<open>The process environment, read through \<open>os.getenv\<close>.\<close>

type_synonym environ = "string \<Rightarrow> string option"

definition getenv_default :: "environ \<Rightarrow> string \<Rightarrow> string \<Rightarrow> string" where
  "getenv_default env name dflt = (case env name of None \<Rightarrow> dflt | Some v \<Rightarrow> v)"

definition RoutingConfig_init :: "environ \<Rightarrow> RoutingConfig" where
  "RoutingConfig_init env =
     (let preferred = py_lower (getenv_default env ''ROUTING_PROVIDER'' ''osrm'') in
      \<lparr> mapbox_api_key = env ''MAPBOX_API_KEY'',
        google_maps_api_key = env ''GOOGLE_MAPS_API_KEY'',
        mapmyindia_api_key = env ''MAPMYINDIA_API_KEY'',
        mapmyindia_client_id = env ''MAPMYINDIA_CLIENT_ID'',
        mapmyindia_client_secret = env ''MAPMYINDIA_CLIENT_SECRET'',
        osrm_base_url = getenv_default env ''OSRM_BASE_URL'' ''https://router.project-osrm.org'',
        preferred_provider =
          (case RoutingProvider_of preferred of Inl _ \<Rightarrow> OSRM | Inr p \<Rightarrow> p) \<rparr>)"

fun is_provider_configured :: "RoutingConfig \<Rightarrow> RoutingProvider \<Rightarrow> bool" where
  "is_provider_configured cfg MAPBOX = py_bool_str (mapbox_api_key cfg)"
| "is_provider_configured cfg GOOGLE_MAPS = py_bool_str (google_maps_api_key cfg)"
| "is_provider_configured cfg MAPMYINDIA =
     (py_bool_str (mapmyindia_api_key cfg) \<or>
      (py_bool_str (mapmyindia_client_id cfg) \<and> py_bool_str (mapmyindia_client_secret cfg)))"
| "is_provider_configured cfg OSRM = True"

definition get_available_providers :: "RoutingConfig \<Rightarrow> RoutingProvider list" where
  "get_available_providers cfg = filter (is_provider_configured cfg) all_providers"

definition get_fallback_chain :: "RoutingConfig \<Rightarrow> RoutingProvider list" where
  "get_fallback_chain cfg =
     (let chain0 = (if is_provider_configured cfg (preferred_provider cfg)
                    then [preferred_provider cfg] else []);
          chain1 = chain0 @
                   filter (\<lambda>provider. provider \<noteq> preferred_provider cfg \<and>
                                       is_provider_configured cfg provider) all_providers
      in if OSRM \<notin> set chain1 then chain1 @ [OSRM] else chain1)"


section \<open>JSON values\<close>

text \<open>
  What \<open>resp.json()\<close> yields: \<open>None\<close>, booleans, numbers, strings, lists and
  dictionaries. A dictionary is an association list with unique keys in insertion order.
  Numbers are real numbers: the rounding error of floating-point arithmetic is outside
  the model.
\<close>

datatype json =
    JNull
  | JBool bool
  | JNum real
  | JStr string
  | JList "json list"
  | JDict "(string \<times> json) list"

fun py_truthy :: "json \<Rightarrow> bool" where
  "py_truthy JNull = False"
| "py_truthy (JBool b) = b"
| "py_truthy (JNum x) = (x \<noteq> 0)"
| "py_truthy (JStr s) = (s \<noteq> [])"
| "py_truthy (JList xs) = (xs \<noteq> [])"
| "py_truthy (JDict d) = (d \<noteq> [])"

text \<open>\<open>d.get(key, default)\<close> and \<open>d[key] = value\<close> on the association list.\<close>

definition dict_get :: "(string \<times> json) list \<Rightarrow> string \<Rightarrow> json \<Rightarrow> json" where
  "dict_get d k dflt = (case map_of d k of None \<Rightarrow> dflt | Some v \<Rightarrow> v)"

fun dict_set :: "string \<Rightarrow> json \<Rightarrow> (string \<times> json) list \<Rightarrow> (string \<times> json) list" where
  "dict_set k v [] = [(k, v)]"
| "dict_set k v ((k', v') # d) =
     (if k' = k then (k, v) # d else (k', v') # dict_set k v d)"

text \<open>\<open>x.get(key, default)\<close> on any value: only a dictionary has the method.\<close>

fun py_get :: "json \<Rightarrow> string \<Rightarrow> json \<Rightarrow> pyerror + json" where
  "py_get (JDict d) k dflt = Inr (dict_get d k dflt)"
| "py_get _ k dflt = Inl AttributeError"

text \<open>\<open>x[key]\<close> with a string key and \<open>x[0]\<close>.\<close>

fun py_item :: "json \<Rightarrow> string \<Rightarrow> pyerror + json" where
  "py_item (JDict d) k = (case map_of d k of None \<Rightarrow> Inl KeyError | Some v \<Rightarrow> Inr v)"
| "py_item _ k = Inl TypeError"

fun py_first :: "json \<Rightarrow> pyerror + json" where
  "py_first (JList []) = Inl IndexError"
| "py_first (JList (x # xs)) = Inr x"
| "py_first (JStr []) = Inl IndexError"
| "py_first (JStr (c # cs)) = Inr (JStr [c])"
| "py_first (JDict d) = Inl KeyError"
| "py_first _ = Inl TypeError"

text \<open>Iterating over a value, as \<open>for\<close> and \<open>list.extend\<close> do.\<close>

fun py_iter :: "json \<Rightarrow> pyerror + json list" where
  "py_iter (JList xs) = Inr xs"
| "py_iter (JStr s) = Inr (map (\<lambda>c. JStr [c]) s)"
| "py_iter (JDict d) = Inr (map (\<lambda>kv. JStr (fst kv)) d)"
| "py_iter _ = Inl TypeError"

text \<open>
  \<open>float(x)\<close>. Parsing the text of a string is Python's own: \<open>parse\<close> stands for it and
  gives \<open>None\<close> where Python raises \<open>ValueError\<close>.
\<close>

fun py_float :: "(string \<Rightarrow> real option) \<Rightarrow> json \<Rightarrow> pyerror + real" where
  "py_float parse (JNum x) = Inr x"
| "py_float parse (JBool b) = Inr (if b then 1 else 0)"
| "py_float parse (JStr s) = (case parse s of None \<Rightarrow> Inl ValueError | Some x \<Rightarrow> Inr x)"
| "py_float parse _ = Inl TypeError"

text \<open>\<open>round(x, n)\<close> on exact values: to the nearest multiple of \<open>10^-n\<close>, a tie to
  the even one.\<close>

definition py_round :: "real \<Rightarrow> nat \<Rightarrow> real" where
  "py_round x n =
     (let s = x * 10 ^ n; f = \<lfloor>s\<rfloor>; d = s - of_int f
      in of_int (if d < 1 / 2 then f
                 else if 1 / 2 < d then f + 1
                 else if even f then f else f + 1) / 10 ^ n)"

section \<open>services: the provider clients\<close>

text \<open>The arguments of one \<open>get_route\<close> call.\<close>

record route_query =
  start_lat :: real
  start_lon :: real
  end_lat :: real
  end_lon :: real
  travel_mode :: string

subsection \<open>services/mapmyindia.py\<close>

text \<open>
  The network is a function from the request to what \<open>httpx\<close> gives back: an exception
  or a response. A response has its status code, its text and what \<open>resp.json()\<close>
  yields (that call raises on a body that is not JSON). Every client function returns,
  with its result, the list of requests it issued.
  The path of a routing request carries the coordinates as text; the model keeps the
  query itself there, number formatting being Python's own.
\<close>

datatype http_request =
    TokenPost string string string
  | RouteGet string route_query "(string \<times> string) list"

record http_response =
  status_code :: int
  body_json :: "pyerror + json"
  body_text :: string

type_synonym network = "http_request \<Rightarrow> pyerror + http_response"

fun is_route_request :: "http_request \<Rightarrow> bool" where
  "is_route_request (RouteGet url q params) = True"
| "is_route_request (TokenPost url cid secret) = False"

record MapMyIndiaClient =
  api_key :: "string option"
  client_id :: "string option"
  client_secret :: "string option"
  is_configured :: bool
  token :: json
  token_expiry :: int

definition MMI_BASE_URL :: string where
  "MMI_BASE_URL = ''https://apis.mapmyindia.com/advancedmaps/v1''"

definition MMI_TOKEN_URL :: string where
  "MMI_TOKEN_URL = ''https://outpost.mapmyindia.com/api/security/oauth/token''"

definition MapMyIndiaClient_init :: "environ \<Rightarrow> MapMyIndiaClient" where
  "MapMyIndiaClient_init env =
     \<lparr> api_key = env ''MAPMYINDIA_API_KEY'',
       client_id = env ''MAPMYINDIA_CLIENT_ID'',
       client_secret = env ''MAPMYINDIA_CLIENT_SECRET'',
       is_configured =
         (py_bool_str (env ''MAPMYINDIA_API_KEY'') \<or>
          (py_bool_str (env ''MAPMYINDIA_CLIENT_ID'') \<and>
           py_bool_str (env ''MAPMYINDIA_CLIENT_SECRET''))),
       token = JNull,
       token_expiry = 0 \<rparr>"

text \<open>\<open>_get_token\<close>: the token (or \<open>None\<close>), the client with its cached token, and
  the requests issued.\<close>

definition mmi_get_token ::
  "MapMyIndiaClient \<Rightarrow> network \<Rightarrow> json \<times> MapMyIndiaClient \<times> http_request list" where
  "mmi_get_token self net =
     (if py_bool_str (api_key self) then (JNull, self, [])
      else if \<not> py_bool_str (client_id self) \<or> \<not> py_bool_str (client_secret self)
      then (JNull, self, [])
      else if py_truthy (token self) then (token self, self, [])
      else
        (let req = TokenPost MMI_TOKEN_URL (the (client_id self)) (the (client_secret self)) in
         case net req of
           Inl e \<Rightarrow> (JNull, self, [req])
         | Inr resp \<Rightarrow>
             if status_code resp = 200 then
               (case body_json resp of
                  Inl e \<Rightarrow> (JNull, self, [req])
                | Inr data \<Rightarrow>
                    (case py_get data ''access_token'' JNull of
                       Inl e \<Rightarrow> (JNull, self, [req])
                     | Inr t \<Rightarrow> (t, self\<lparr>token := t\<rparr>, [req])))
             else (JNull, self, [req])))"

text \<open>\<open>MapMyIndiaClient.get_route\<close>: the route (or \<open>None\<close>), the client afterwards,
  and the requests issued.\<close>

definition mmi_get_route ::
  "MapMyIndiaClient \<Rightarrow> network \<Rightarrow> route_query \<Rightarrow> json \<times> MapMyIndiaClient \<times> http_request list" where
  "mmi_get_route self net q =
     (if \<not> is_configured self then (JNull, self, [])
      else if py_bool_str (api_key self) then
        (let url = MMI_BASE_URL @ ''/'' @ the (api_key self) @ ''/route_adv/driving/'';
             params = [(''steps'', ''true''), (''geometries'', ''polyline6''),
                       (''overview'', ''full'')];
             req = RouteGet url q params in
         case net req of
           Inl e \<Rightarrow> (JNull, self, [req])
         | Inr resp \<Rightarrow>
             if status_code resp = 200 then
               (case body_json resp of
                  Inl e \<Rightarrow> (JNull, self, [req])
                | Inr data \<Rightarrow> (data, self, [req]))
             else (JNull, self, [req]))
      else
        (case mmi_get_token self net of
           (tok, self', reqs) \<Rightarrow>
             if \<not> py_truthy tok then (JNull, self', reqs)
             else (JNull, self', reqs)))"

text \<open>\<open>get_nearby_incidents\<close> reports nothing in every case.\<close>

definition mmi_get_nearby_incidents :: "MapMyIndiaClient \<Rightarrow> real \<Rightarrow> real \<Rightarrow> int \<Rightarrow> json" where
  "mmi_get_nearby_incidents self lat lon radius_km =
     (if \<not> is_configured self then JNull else JNull)"

section \<open>services/router_manager.py\<close>

text \<open>
  A client, seen from the manager, is the outcome of awaiting its \<open>get_route\<close>: an
  exception or the value returned. The manager holds one client per provider; the
  fallback loop returns, with its result, the providers it invoked, in order.
\<close>

type_synonym provider_client = "route_query \<Rightarrow> pyerror + json"

record RouterManager =
  config :: RoutingConfig
  providers :: "RoutingProvider \<Rightarrow> provider_client option"
  fallback_chain :: "RoutingProvider list"

definition RouterManager_init ::
  "RoutingConfig \<Rightarrow> (RoutingProvider \<Rightarrow> provider_client) \<Rightarrow> RouterManager" where
  "RouterManager_init cfg clients =
     \<lparr> config = cfg,
       providers = (\<lambda>p. Some (clients p)),
       fallback_chain = get_fallback_chain cfg \<rparr>"

definition provider_order :: "RouterManager \<Rightarrow> RoutingProvider option \<Rightarrow> RoutingProvider list" where
  "provider_order self preferred =
     (case preferred of
        Some p \<Rightarrow>
          if is_provider_configured (config self) p
          then [p] @ filter (\<lambda>q. q \<noteq> p) (fallback_chain self)
          else fallback_chain self
      | None \<Rightarrow> fallback_chain self)"

text \<open>One pass of the loop body: \<open>Some\<close> is the value returned from inside the loop,
  \<open>None\<close> means the loop goes on to the next provider.\<close>

definition attempt_provider ::
  "RouterManager \<Rightarrow> route_query \<Rightarrow> RoutingProvider \<Rightarrow> json option" where
  "attempt_provider self q provider =
     (case providers self provider of
        None \<Rightarrow> None
      | Some client \<Rightarrow>
          (case client q of
             Inl e \<Rightarrow> None
           | Inr result \<Rightarrow>
               if py_truthy result then
                 Some (case result of
                         JDict d \<Rightarrow> JDict (dict_set ''_provider_used'' (JStr (provider_value provider)) d)
                       | _ \<Rightarrow> result)
               else None))"

fun try_providers ::
  "RouterManager \<Rightarrow> route_query \<Rightarrow> RoutingProvider list \<Rightarrow>
   (pyerror + json) \<times> RoutingProvider list" where
  "try_providers self q [] = (Inr JNull, [])"
| "try_providers self q (provider # rest) =
     (case attempt_provider self q provider of
        Some result \<Rightarrow> (Inr result, [provider])
      | None \<Rightarrow>
          (case try_providers self q rest of
             (r, invoked) \<Rightarrow> (r, provider # invoked)))"

definition get_route ::
  "RouterManager \<Rightarrow> route_query \<Rightarrow> RoutingProvider option \<Rightarrow>
   (pyerror + json) \<times> RoutingProvider list" where
  "get_route self q preferred = try_providers self q (provider_order self preferred)"


section \<open>routes/routing.py\<close>

datatype TravelMode = Car | Bike | Walk | Transit

fun mode_value :: "TravelMode \<Rightarrow> string" where
  "mode_value Car = ''car''"
| "mode_value Bike = ''bike''"
| "mode_value Walk = ''walk''"
| "mode_value Transit = ''transit''"

record Coordinate =
  lat :: real
  lon :: real

record RouteLeg =
  leg_start :: Coordinate
  leg_end :: Coordinate
  leg_distance_meters :: real
  leg_duration_seconds :: real
  leg_mode :: TravelMode
  leg_geometry :: string

record RouteSummary =
  summary_distance_meters :: real
  summary_duration_seconds :: real
  summary_estimated_co2_kg :: real

record RouteRequest =
  origin :: Coordinate
  destination :: Coordinate
  mode :: TravelMode
  departure_time :: "string option"

record RouteResponse =
  route_waypoints :: "Coordinate list"
  legs :: "RouteLeg list"
  summary :: RouteSummary
  debug :: "(string \<times> json) list"

record AlternateRouteRequest = RouteRequest +
  event_type :: string

record AlternateRouteResponse =
  base_route :: RouteResponse
  alternate_route :: RouteResponse
  reasoning :: string

subsection \<open>Distance, speed and emissions\<close>

definition radians :: "real \<Rightarrow> real" where
  "radians x = x * pi / 180"

text \<open>
  The argument of the square root in \<open>_haversine_distance_m\<close>. It lies between 0 and 1
  for all coordinates (lemma \<open>haversine_a_range\<close> below), so \<open>sqrt\<close> and \<open>arcsin\<close>
  are used inside the range where Python's \<open>sqrt\<close> and \<open>asin\<close> return.
\<close>

definition haversine_a :: "real \<Rightarrow> real \<Rightarrow> real \<Rightarrow> real \<Rightarrow> real" where
  "haversine_a lat1 lon1 lat2 lon2 =
     (let d_lat = radians (lat2 - lat1);
          d_lon = radians (lon2 - lon1)
      in (sin (d_lat / 2)) ^ 2
         + cos (radians lat1) * cos (radians lat2) * (sin (d_lon / 2)) ^ 2)"

definition haversine_distance_m :: "real \<Rightarrow> real \<Rightarrow> real \<Rightarrow> real \<Rightarrow> real" where
  "haversine_distance_m lat1 lon1 lat2 lon2 =
     (let r = 6371000;
          a = haversine_a lat1 lon1 lat2 lon2;
          c = 2 * arcsin (sqrt a)
      in r * c)"

fun estimate_speed_mps :: "TravelMode \<Rightarrow> real" where
  "estimate_speed_mps Walk = 1.4"
| "estimate_speed_mps Bike = 4.1"
| "estimate_speed_mps Transit = 8.3"
| "estimate_speed_mps Car = 13.9"

definition estimate_co2_kg :: "real \<Rightarrow> TravelMode \<Rightarrow> real" where
  "estimate_co2_kg distance_m m =
     (if m = Walk \<or> m = Bike then 0
      else (let factor = (if m = Transit then 0.08 else 0.18)
            in py_round ((distance_m / 1000) * factor) 3))"

subsection \<open>plan\_route\<close>

text \<open>Sequencing of steps that can raise: the first exception ends the computation.\<close>

definition py_then :: "pyerror + 'a \<Rightarrow> ('a \<Rightarrow> pyerror + 'b) \<Rightarrow> pyerror + 'b" where
  "py_then m f = (case m of Inl e \<Rightarrow> Inl e | Inr x \<Rightarrow> f x)"

definition query_of ::
  "'a Coordinate_scheme \<Rightarrow> 'a Coordinate_scheme \<Rightarrow> string \<Rightarrow> route_query" where
  "query_of a b m =
     \<lparr> start_lat = lat a, start_lon = lon a, end_lat = lat b, end_lon = lon b,
       travel_mode = m \<rparr>"

text \<open>
  The \<open>try\<close> block of \<open>plan_route\<close>: \<open>Inr (Some r)\<close> is the response returned from
  inside it, \<open>Inr None\<close> an empty route list, \<open>Inl e\<close> an exception, which the
  \<open>except\<close> clause catches. A geometry that is not a string is refused by the
  \<open>RouteLeg\<close> constructor.
\<close>

definition plan_route_live ::
  "(string \<Rightarrow> real option) \<Rightarrow> 'a RouteRequest_scheme \<Rightarrow> json \<Rightarrow> pyerror + RouteResponse option" where
  "plan_route_live parse payload mmi_resp =
     py_then (py_get mmi_resp ''routes'' (JList [])) (\<lambda>routes.
       if \<not> py_truthy routes then Inr None
       else
         py_then (py_first routes) (\<lambda>route.
         py_then (py_get route ''distance'' (JNum 0)) (\<lambda>dv.
         py_then (py_float parse dv) (\<lambda>distance_m.
         py_then (py_get route ''duration'' (JNum 0)) (\<lambda>tv.
         py_then (py_float parse tv) (\<lambda>duration_s.
         py_then (py_get route ''geometry'' (JStr [])) (\<lambda>geometry.
           (case geometry of
              JStr g \<Rightarrow>
                (let leg = \<lparr> leg_start = origin payload,
                             leg_end = destination payload,
                             leg_distance_meters = py_round distance_m 2,
                             leg_duration_seconds = py_round duration_s 1,
                             leg_mode = mode payload,
                             leg_geometry = g \<rparr>;
                     summ = \<lparr> summary_distance_meters = leg_distance_meters leg,
                              summary_duration_seconds = leg_duration_seconds leg,
                              summary_estimated_co2_kg =
                                estimate_co2_kg distance_m (mode payload) \<rparr>
                 in Inr (Some \<lparr> route_waypoints = [origin payload, destination payload],
                                legs = [leg],
                                summary = summ,
                                debug = [(''implementation'', JStr ''mapmyindia_live''),
                                         (''note'', JStr ''Live traffic data used.'')] \<rparr>))
            | _ \<Rightarrow> Inl ValueError))))))))"

definition plan_route_fallback :: "'a RouteRequest_scheme \<Rightarrow> RouteResponse" where
  "plan_route_fallback payload =
     (let distance_m = haversine_distance_m (lat (origin payload)) (lon (origin payload))
                         (lat (destination payload)) (lon (destination payload));
          speed_mps = estimate_speed_mps (mode payload);
          duration_s = (if speed_mps > 0 then distance_m / speed_mps else 0);
          leg = \<lparr> leg_start = origin payload,
                  leg_end = destination payload,
                  leg_distance_meters = py_round distance_m 2,
                  leg_duration_seconds = py_round duration_s 1,
                  leg_mode = mode payload,
                  leg_geometry = [] \<rparr>;
          summ = \<lparr> summary_distance_meters = leg_distance_meters leg,
                   summary_duration_seconds = leg_duration_seconds leg,
                   summary_estimated_co2_kg = estimate_co2_kg distance_m (mode payload) \<rparr>
      in \<lparr> route_waypoints = [origin payload, destination payload],
           legs = [leg],
           summary = summ,
           debug = [(''implementation'', JStr ''haversine_stub''),
                    (''note'', JStr ''Fallback used (API unavailable or failed).'')] \<rparr>)"

text \<open>
  \<open>plan_route\<close> reads the global name \<open>mmi_client\<close>. Its second argument is what that
  name is bound to in the module, \<open>None\<close> when the module binds no such name; reading an
  unbound name raises \<open>NameError\<close>.
\<close>

definition plan_route ::
  "(string \<Rightarrow> real option) \<Rightarrow> MapMyIndiaClient option \<Rightarrow> network \<Rightarrow>
   'a RouteRequest_scheme \<Rightarrow> pyerror + RouteResponse" where
  "plan_route parse mmi_client net payload =
     (case mmi_client of
        None \<Rightarrow> Inl (NameError ''mmi_client'')
      | Some client \<Rightarrow>
          (let mmi_resp = fst (mmi_get_route client net
                                 (query_of (origin payload) (destination payload)
                                    (mode_value (mode payload))))
           in case (if py_truthy mmi_resp then plan_route_live parse payload mmi_resp
                    else Inr None) of
                Inr (Some response) \<Rightarrow> Inr response
              | _ \<Rightarrow> Inr (plan_route_fallback payload)))"

text \<open>
  The names that routes/routing.py binds at module level, by its imports, assignments,
  classes and functions, in the order of the file. \<open>mmi_client\<close> is not among them
  (routes/events.py binds it, for itself), and it is not a builtin.
\<close>

definition routing_module_names :: "string list" where
  "routing_module_names =
     [''radians'', ''cos'', ''sin'', ''asin'', ''sqrt'',
      ''List'', ''Literal'', ''Optional'', ''Dict'', ''Any'',
      ''APIRouter'', ''HTTPException'', ''BaseModel'', ''Field'', ''logging'',
      ''router_manager'', ''OSRMClient'', ''MapboxGeocoder'', ''routing_config'',
      ''logger'', ''osrm_client'', ''mapbox_geocoder'', ''router'', ''TravelMode'',
      ''Coordinate'', ''RouteLeg'', ''RouteSummary'', ''RouteRequest'', ''RouteResponse'',
      ''AlternateRouteRequest'', ''AlternateRouteResponse'',
      ''_haversine_distance_m'', ''_estimate_speed_mps'', ''_estimate_co2_kg'',
      ''plan_route'', ''plan_alternate_route'',
      ''TextRouteRequest'', ''TextRouteResponse'', ''LOCATION_DB'',
      ''_geocode_location'', ''_generate_waypoints'', ''suggest_text_route'',
      ''recalculate_route'', ''get_provider_status'']"

definition routing_mmi_client :: "environ \<Rightarrow> MapMyIndiaClient option" where
  "routing_mmi_client env =
     (if ''mmi_client'' \<in> set routing_module_names
      then Some (MapMyIndiaClient_init env) else None)"

subsection \<open>plan\_alternate\_route\<close>

text \<open>The factor and the reason chosen from the normalised event type.\<close>

definition alternate_event_factor :: "string \<Rightarrow> real \<times> string" where
  "alternate_event_factor normalized =
     (if normalized \<in> set [''road_closure'', ''accident'', ''construction''] then
        (1.3, ''Road closures typically force a detour around the blocked segment, ''
              @ ''so we assume about 30% extra distance and time.'')
      else if normalized \<in> set [''protest'', ''rally'', ''parade''] then
        (1.2, ''Protests and rallies can slow traffic and partially block streets, ''
              @ ''so we assume around 20% extra distance and time.'')
      else if normalized \<in> set [''concert'', ''sports'', ''event''] then
        (1.15, ''Large events create localized congestion near the venue, so we ''
               @ ''assume a 15% increase in distance and travel time for a smarter route.'')
      else
        (1.05, ''Unknown event type. We apply a small 5% buffer as a conservative ''
               @ ''detour estimate while keeping the route close to the base plan.''))"

definition alternate_of_base ::
  "AlternateRouteRequest \<Rightarrow> RouteResponse \<Rightarrow> AlternateRouteResponse" where
  "alternate_of_base payload base =
     (let normalized = py_strip (py_lower (event_type payload));
          factor = fst (alternate_event_factor normalized);
          reason = snd (alternate_event_factor normalized);
          alt_distance = py_round (summary_distance_meters (summary base) * factor) 2;
          alt_duration = py_round (summary_duration_seconds (summary base) * factor) 1;
          alt_summary = \<lparr> summary_distance_meters = alt_distance,
                          summary_duration_seconds = alt_duration,
                          summary_estimated_co2_kg =
                            estimate_co2_kg alt_distance (mode payload) \<rparr>;
          alt_leg = \<lparr> leg_start = origin payload,
                      leg_end = destination payload,
                      leg_distance_meters = alt_distance,
                      leg_duration_seconds = alt_duration,
                      leg_mode = mode payload,
                      leg_geometry = [] \<rparr>;
          alternate = \<lparr> route_waypoints = route_waypoints base,
                        legs = [alt_leg],
                        summary = alt_summary,
                        debug = [(''implementation'', JStr ''event_type_multiplier_stub''),
                                 (''event_type'', JStr (event_type payload)),
                                 (''multiplier'', JNum factor)] \<rparr>
      in \<lparr> base_route = base, alternate_route = alternate, reasoning = reason \<rparr>)"

definition plan_alternate_route ::
  "(string \<Rightarrow> real option) \<Rightarrow> MapMyIndiaClient option \<Rightarrow> network \<Rightarrow>
   AlternateRouteRequest \<Rightarrow> pyerror + AlternateRouteResponse" where
  "plan_alternate_route parse mmi_client net payload =
     py_then (plan_route parse mmi_client net payload)
       (\<lambda>base. Inr (alternate_of_base payload base))"


subsection \<open>Resolving a place name\<close>

text \<open>
  A resolved place: coordinates and a display name; the remote geocoder adds the full
  name. The remote geocoder's reply is taken with numeric coordinates and text names.
\<close>

record GeoPoint = Coordinate +
  display :: string
  full_name :: "string option"

definition geo :: "real \<Rightarrow> real \<Rightarrow> string \<Rightarrow> GeoPoint" where
  "geo la lo d = \<lparr> lat = la, lon = lo, display = d, full_name = None \<rparr>"

definition LOCATION_DB :: "(string \<times> GeoPoint) list" where
  "LOCATION_DB =
     [(''btm layout'', geo 12.9166 77.6101 ''BTM Layout''),
      (''mg road'', geo 12.9716 77.5946 ''MG Road''),
      (''jp nagar'', geo 12.9067 77.5858 ''JP Nagar''),
      (''richmond road'', geo 12.9500 77.6000 ''Richmond Road''),
      (''lalbagh'', geo 12.9507 77.5848 ''Lalbagh''),
      (''indiranagar'', geo 12.9784 77.6408 ''Indiranagar''),
      (''koramangala'', geo 12.9352 77.6245 ''Koramangala''),
      (''whitefield'', geo 12.9698 77.7499 ''Whitefield''),
      (''marathahalli'', geo 12.9592 77.6974 ''Marathahalli''),
      (''hebbal'', geo 13.0358 77.5970 ''Hebbal''),
      (''electronic city'', geo 12.8456 77.6633 ''Electronic City''),
      (''cubbon park'', geo 12.9716 77.5946 ''Cubbon Park''),
      (''ulsoor'', geo 12.9784 77.6408 ''Ulsoor''),
      (''malleshwaram'', geo 13.0050 77.5610 ''Malleshwaram''),
      (''rajajinagar'', geo 12.9784 77.5510 ''Rajajinagar'')]"

text \<open>
  services/mapbox\_geocoding.py. The exchange with the remote service and the reading of
  its reply are the function \<open>remote\<close>, from the stripped place name and the country to
  an exception or the top-ranked result, if any.
\<close>

record MapboxGeocoder =
  geocoder_api_key :: "string option"
  geocoder_is_configured :: bool

type_synonym remote_geocoder = "string \<Rightarrow> string \<Rightarrow> pyerror + GeoPoint option"

definition MapboxGeocoder_init :: "string option \<Rightarrow> MapboxGeocoder" where
  "MapboxGeocoder_init key =
     \<lparr> geocoder_api_key = key, geocoder_is_configured = py_bool_str key \<rparr>"

definition geocode ::
  "MapboxGeocoder \<Rightarrow> remote_geocoder \<Rightarrow> string \<Rightarrow> string \<Rightarrow> pyerror + GeoPoint option" where
  "geocode self remote place_name country =
     (if \<not> geocoder_is_configured self then Inr None
      else (case remote (py_strip place_name) country of
              Inl e \<Rightarrow> Inr None
            | Inr r \<Rightarrow> Inr r))"

definition partial_match :: "string \<Rightarrow> (string \<times> GeoPoint) \<Rightarrow> bool" where
  "partial_match normalized kv = (py_in normalized (fst kv) \<or> py_in (fst kv) normalized)"

definition geocode_location ::
  "MapboxGeocoder \<Rightarrow> remote_geocoder \<Rightarrow> string \<Rightarrow> pyerror + GeoPoint" where
  "geocode_location gc remote location_name =
     (let normalized = py_strip (py_lower location_name);
          fallback = geo 12.9716 77.5946 (py_title location_name)
      in case map_of LOCATION_DB normalized of
           Some v \<Rightarrow> Inr v
         | None \<Rightarrow>
             (case find (partial_match normalized) LOCATION_DB of
                Some kv \<Rightarrow> Inr (snd kv)
              | None \<Rightarrow>
                  if geocoder_is_configured gc then
                    (case geocode gc remote location_name ''in'' of
                       Inl e \<Rightarrow> Inr fallback
                     | Inr None \<Rightarrow> Inr fallback
                     | Inr (Some result) \<Rightarrow> Inr result)
                  else Inr fallback))"

subsection \<open>Waypoints\<close>

definition JUNCTIONS :: "(string \<times> GeoPoint) list" where
  "JUNCTIONS =
     [(''Silk Board'', geo 12.9176 77.6233 ''Silk Board Junction''),
      (''Dairy Circle'', geo 12.9385 77.6015 ''Dairy Circle''),
      (''Richmond Circle'', geo 12.9600 77.5969 ''Richmond Circle''),
      (''Sony World'', geo 12.9352 77.6245 ''Sony World Junction''),
      (''Tin Factory'', geo 12.9940 77.6800 ''Tin Factory'')]"

text \<open>\<open>JUNCTIONS[name]\<close>; every name the function uses is a key of the table.\<close>

definition junction :: "string \<Rightarrow> GeoPoint list" where
  "junction name = (case map_of JUNCTIONS name of None \<Rightarrow> [] | Some j \<Rightarrow> [j])"

definition generate_waypoints ::
  "string \<Rightarrow> string \<Rightarrow> string \<Rightarrow> string list \<times> string \<times> GeoPoint list" where
  "generate_waypoints source dest event =
     (let source_norm = py_strip (py_lower source);
          dest_norm = py_strip (py_lower dest);
          event_norm = py_strip (py_lower event)
      in
      if py_in ''btm'' source_norm \<and> py_in ''mg road'' dest_norm then
        (if py_in ''rally'' event_norm \<or> py_in ''protest'' event_norm
            \<or> py_in ''lalbagh'' event_norm
         then ([source] @ [''Dairy Circle'', ''Richmond Road''] @ [dest],
               ''Avoiding rally congestion near Lalbagh via Dairy Circle'',
               junction ''Dairy Circle'' @ junction ''Richmond Circle'')
         else ([source] @ [''Richmond Road''] @ [dest],
               ''Optimal route via Richmond Circle'',
               junction ''Richmond Circle''))
      else if py_in ''btm'' source_norm \<and> py_in ''koramangala'' dest_norm then
        ([source] @ [''Sony World Junction''] @ [dest],
         ''Direct route via Sony World Junction'',
         junction ''Sony World'')
      else if py_in ''whitefield'' source_norm \<and> py_in ''mg road'' dest_norm then
        ([source] @ [''Tin Factory'', ''Indiranagar''] @ [dest],
         ''Standard route via Tin Factory and Old Madras Road'',
         junction ''Tin Factory'')
      else if py_in ''electronic city'' source_norm \<and> py_in ''mg road'' dest_norm then
        ([source] @ [''Silk Board'', ''Dairy Circle''] @ [dest],
         ''Route via Silk Board and Dairy Circle'',
         junction ''Silk Board'' @ junction ''Dairy Circle'')
      else if event_norm \<noteq> [] then
        ([source] @ [''Alternate Connection''] @ [dest],
         ''Avoiding '' @ event @ '' by taking alternate route'', [])
      else
        ([source] @ [''Direct Connection''] @ [dest],
         ''Standard route recommendation'', []))"

subsection \<open>suggest\_text\_route\<close>

record TextRouteRequest =
  text_source :: string
  text_destination :: string
  text_event :: string
  text_mode :: TravelMode

record TextRouteResponse =
  recommended_route :: string
  reason :: string
  distance_meters :: real
  distance_km :: real
  duration_seconds :: real
  duration_minutes :: real
  estimated_co2_kg :: real
  waypoints :: "string list"
  geometry :: string
  detailed_geometry :: "real list list"
  steps :: "json list"
  start_point :: GeoPoint
  end_point :: GeoPoint

text \<open>\<open>any(x in event_norm for x in keywords)\<close>.\<close>

definition any_in :: "string list \<Rightarrow> string \<Rightarrow> bool" where
  "any_in keywords event_norm = list_ex (\<lambda>x. py_in x event_norm) keywords"

text \<open>The event multiplier of \<open>suggest_text_route\<close>: the distance and the reason after
  the block that starts at \<open>if payload.event\<close>.\<close>

definition apply_event_multiplier :: "string \<Rightarrow> real \<Rightarrow> string \<Rightarrow> real \<times> string" where
  "apply_event_multiplier event distance_m rsn =
     (if event \<noteq> [] then
        (let event_norm = py_strip (py_lower event) in
         if any_in [''rally'', ''protest'', ''parade'', ''political''] event_norm then
           (distance_m * 1.2, ''Avoiding '' @ py_lower event @ '' congestion'')
         else if any_in [''closure'', ''accident'', ''construction''] event_norm then
           (distance_m * 1.3, ''Detouring around '' @ py_lower event)
         else if any_in [''concert'', ''sports'', ''event''] event_norm then
           (distance_m * 1.15, ''Avoiding '' @ py_lower event @ '' traffic'')
         else (distance_m, rsn))
      else (distance_m, rsn))"

text \<open>The local variables that the \<open>try\<close> block of \<open>suggest_text_route\<close> assigns.\<close>

record route_locals =
  l_geometry :: json
  l_distance_m :: real
  l_duration_s :: real
  l_steps :: "json list"
  l_provider_used :: json

text \<open>The loop over the legs: the steps collected, and whether the loop ran to its end
  (\<open>False\<close>: an exception left it, with the steps collected so far).\<close>

fun extend_from_legs :: "json list \<Rightarrow> json list \<Rightarrow> json list \<times> bool" where
  "extend_from_legs [] acc = (acc, True)"
| "extend_from_legs (leg # rest) acc =
     (case py_then (py_get leg ''steps'' (JList [])) py_iter of
        Inl e \<Rightarrow> (acc, False)
      | Inr items \<Rightarrow> extend_from_legs rest (acc @ items))"

text \<open>The \<open>try\<close> block after the call of the router manager, with its \<open>except\<close>
  clause: the local variables as they are when the block is left, by its end or by an
  exception.\<close>

definition use_provider_route ::
  "(string \<Rightarrow> real option) \<Rightarrow> json \<Rightarrow> route_locals \<Rightarrow> route_locals" where
  "use_provider_route parse route_resp l0 =
     (if \<not> py_truthy route_resp then l0
      else case py_get route_resp ''routes'' JNull of
        Inl e \<Rightarrow> l0
      | Inr routes \<Rightarrow>
          if \<not> py_truthy routes then l0
          else case py_then (py_item route_resp ''routes'') py_first of
            Inl e \<Rightarrow> l0
          | Inr route \<Rightarrow>
              (case py_get route ''geometry'' (JStr []) of
                 Inl e \<Rightarrow> l0
               | Inr g \<Rightarrow>
                   (let l1 = l0\<lparr>l_geometry := g\<rparr> in
                    case py_then (py_get route ''distance'' (JNum (l_distance_m l1)))
                           (py_float parse) of
                      Inl e \<Rightarrow> l1
                    | Inr d \<Rightarrow>
                        (let l2 = l1\<lparr>l_distance_m := d\<rparr> in
                         case py_then (py_get route ''duration'' (JNum (l_duration_s l2)))
                                (py_float parse) of
                           Inl e \<Rightarrow> l2
                         | Inr t \<Rightarrow>
                             (let l3 = l2\<lparr>l_duration_s := t\<rparr> in
                              case py_then (py_get route ''legs'' (JList [])) py_iter of
                                Inl e \<Rightarrow> l3
                              | Inr ls \<Rightarrow>
                                  (case extend_from_legs ls (l_steps l3) of
                                     (st, False) \<Rightarrow> l3\<lparr>l_steps := st\<rparr>
                                   | (st, True) \<Rightarrow>
                                       (case py_get route_resp ''_provider_used''
                                               (JStr ''unknown'') of
                                          Inl e \<Rightarrow> l3\<lparr>l_steps := st\<rparr>
                                        | Inr pu \<Rightarrow>
                                            l3\<lparr>l_steps := st, l_provider_used := pu\<rparr>)))))))"

text \<open>The path and the steps built when no geometry came from a provider.\<close>

definition step_of :: "string \<Rightarrow> real \<Rightarrow> real \<Rightarrow> real \<Rightarrow> real \<Rightarrow> string \<Rightarrow> json" where
  "step_of instruction step_m step_s lo la maneuver_instruction =
     JDict [(''instruction'', JStr instruction),
            (''distance'', JNum step_m),
            (''duration'', JNum step_s),
            (''maneuver'', JDict [(''location'', JList [JNum lo, JNum la]),
                                  (''instruction'', JStr maneuver_instruction)])]"

definition mock_path ::
  "GeoPoint \<Rightarrow> GeoPoint \<Rightarrow> string list \<Rightarrow> GeoPoint list \<Rightarrow> real list list \<times> json list" where
  "mock_path source_coords dest_coords wps intermediate_points =
     ([[lat source_coords, lon source_coords]]
        @ map (\<lambda>pt. [lat pt, lon pt]) intermediate_points
        @ [[lat dest_coords, lon dest_coords]],
      [step_of (''Start from '' @ hd wps) 0 0 (lon source_coords) (lat source_coords)
         (''Start from '' @ hd wps)]
        @ map (\<lambda>pt. step_of (''Head toward '' @ display pt) 500 60 (lon pt) (lat pt)
                       (''Pass through '' @ display pt)) intermediate_points
        @ [step_of (''Arrive at '' @ last wps) 200 30 (lon dest_coords) (lat dest_coords)
             (''Arrive at '' @ last wps)])"

text \<open>\<open>" -> ".join(waypoints)\<close>; the arrow of the source is the character U+2192,
  here in its UTF-8 bytes.\<close>

definition arrow_sep :: string where
  "arrow_sep = [CHR 0x20, CHR 0xE2, CHR 0x86, CHR 0x92, CHR 0x20]"

fun join_with :: "string \<Rightarrow> string list \<Rightarrow> string" where
  "join_with sep [] = []"
| "join_with sep [w] = w"
| "join_with sep (w # ws) = w @ sep @ join_with sep ws"

text \<open>
  The response is built by the constructor of \<open>TextRouteResponse\<close>, after the
  \<open>try\<close> block and outside it. The constructor validates its arguments: \<open>geometry\<close>
  has to be a string and every element of \<open>steps\<close> a dictionary; otherwise it raises
  pydantic's \<open>ValidationError\<close>, a \<open>ValueError\<close>, which nothing catches. The other
  arguments have the declared types by construction.
\<close>

fun is_dict :: "json \<Rightarrow> bool" where
  "is_dict (JDict d) = True"
| "is_dict _ = False"

definition suggest_text_route ::
  "(string \<Rightarrow> real option) \<Rightarrow> MapboxGeocoder \<Rightarrow> remote_geocoder \<Rightarrow> RouterManager \<Rightarrow>
   TextRouteRequest \<Rightarrow> pyerror + TextRouteResponse" where
  "suggest_text_route parse gc remote manager payload =
     py_then (geocode_location gc remote (text_source payload)) (\<lambda>source_coords.
     py_then (geocode_location gc remote (text_destination payload)) (\<lambda>dest_coords.
       (let gw = generate_waypoints (display source_coords) (display dest_coords)
                   (text_event payload);
            wps = fst gw;
            intermediate_points = snd (snd gw);
            haversine = haversine_distance_m (lat source_coords) (lon source_coords)
                          (lat dest_coords) (lon dest_coords);
            em = apply_event_multiplier (text_event payload) haversine (fst (snd gw));
            distance_m = fst em;
            rsn = snd em;
            speed_mps = estimate_speed_mps (text_mode payload);
            duration_s = (if speed_mps > 0 then distance_m / speed_mps else 0);
            co2_kg = estimate_co2_kg distance_m (text_mode payload);
            l0 = \<lparr> l_geometry = JStr [], l_distance_m = distance_m,
                   l_duration_s = duration_s, l_steps = [],
                   l_provider_used = JStr ''fallback'' \<rparr>;
            l = (case fst (get_route manager
                             (query_of source_coords dest_coords
                                (mode_value (text_mode payload))) None) of
                   Inl e \<Rightarrow> l0
                 | Inr route_resp \<Rightarrow> use_provider_route parse route_resp l0);
            mock = mock_path source_coords dest_coords wps intermediate_points;
            path = (if \<not> py_truthy (l_geometry l) then fst mock else []);
            all_steps = (if \<not> py_truthy (l_geometry l) then l_steps l @ snd mock
                         else l_steps l)
        in case l_geometry l of
             JStr g \<Rightarrow>
               if list_all is_dict all_steps then
                 Inr \<lparr> recommended_route = join_with arrow_sep wps,
                       reason = rsn,
                       distance_meters = py_round (l_distance_m l) 2,
                       distance_km = py_round (l_distance_m l / 1000) 2,
                       duration_seconds = py_round (l_duration_s l) 1,
                       duration_minutes = py_round (l_duration_s l / 60) 1,
                       estimated_co2_kg = co2_kg,
                       waypoints = wps,
                       geometry = g,
                       detailed_geometry = path,
                       steps = all_steps,
                       start_point = source_coords,
                       end_point = dest_coords \<rparr>
               else Inl ValueError
           | _ \<Rightarrow> Inl ValueError)))"

definition recalculate_route ::
  "(string \<Rightarrow> real option) \<Rightarrow> MapboxGeocoder \<Rightarrow> remote_geocoder \<Rightarrow> RouterManager \<Rightarrow>
   TextRouteRequest \<Rightarrow> pyerror + TextRouteResponse" where
  "recalculate_route parse gc remote manager payload =
     suggest_text_route parse gc remote manager payload"


section \<open>Notions used in the statements\<close>

text \<open>A provider call that yields no route: it raised, or it returned a false value
  (\<open>None\<close>, an empty dictionary).\<close>

definition no_route :: "pyerror + json \<Rightarrow> bool" where
  "no_route outcome = (case outcome of Inl e \<Rightarrow> True | Inr v \<Rightarrow> \<not> py_truthy v)"

text \<open>The angular separation of two points on the sphere: their central angle, by the
  spherical law of cosines. Coordinates are in degrees.\<close>

definition angular_separation :: "real \<Rightarrow> real \<Rightarrow> real \<Rightarrow> real \<Rightarrow> real" where
  "angular_separation lat1 lon1 lat2 lon2 =
     arccos (sin (radians lat1) * sin (radians lat2)
             + cos (radians lat1) * cos (radians lat2) * cos (radians (lon2 - lon1)))"

section \<open>Example inputs\<close>

definition example_config ::
  "string option \<Rightarrow> string option \<Rightarrow> RoutingProvider \<Rightarrow> RoutingConfig" where
  "example_config mapbox_key google_key preferred =
     \<lparr> mapbox_api_key = mapbox_key, google_maps_api_key = google_key,
       mapmyindia_api_key = None, mapmyindia_client_id = None,
       mapmyindia_client_secret = None,
       osrm_base_url = ''https://router.project-osrm.org'',
       preferred_provider = preferred \<rparr>"

definition example_query :: route_query where
  "example_query =
     \<lparr> start_lat = 12.9166, start_lon = 77.6101, end_lat = 12.9716, end_lon = 77.5946,
       travel_mode = ''car'' \<rparr>"

text \<open>Mapbox times out, Google and MapMyIndia return nothing, OSRM answers.\<close>

definition example_clients :: "RoutingProvider \<Rightarrow> provider_client" where
  "example_clients p q =
     (case p of
        MAPBOX \<Rightarrow> Inl TransportError
      | GOOGLE_MAPS \<Rightarrow> Inr JNull
      | MAPMYINDIA \<Rightarrow> Inr JNull
      | OSRM \<Rightarrow> Inr (JDict [(''code'', JStr ''Ok''),
                             (''routes'', JList [JDict [(''distance'', JNum 7000)]])]))"

text \<open>No provider answers.\<close>

definition failing_clients :: "RoutingProvider \<Rightarrow> provider_client" where
  "failing_clients p q =
     (case p of
        MAPBOX \<Rightarrow> Inl TransportError
      | GOOGLE_MAPS \<Rightarrow> Inr (JDict [])
      | _ \<Rightarrow> Inr JNull)"

text \<open>Only the MapMyIndia client id and secret are set.\<close>

definition oauth_only_env :: environ where
  "oauth_only_env =
     (\<lambda>name. if name = ''MAPMYINDIA_CLIENT_ID'' then Some ''client-id''
             else if name = ''MAPMYINDIA_CLIENT_SECRET'' then Some ''client-secret''
             else None)"

text \<open>The token endpoint grants a token; routing requests do not get through.\<close>

definition token_granting_net :: network where
  "token_granting_net req =
     (case req of
        TokenPost url cid secret \<Rightarrow>
          Inr \<lparr> status_code = 200,
                body_json = Inr (JDict [(''access_token'', JStr ''tok-1'')]),
                body_text = [] \<rparr>
      | RouteGet url q params \<Rightarrow> Inl TransportError)"

definition example_request :: RouteRequest where
  "example_request =
     \<lparr> origin = \<lparr> lat = 12.9166, lon = 77.6101 \<rparr>,
       destination = \<lparr> lat = 12.9716, lon = 77.5946 \<rparr>,
       mode = Car, departure_time = None \<rparr>"

definition example_alternate_request :: AlternateRouteRequest where
  "example_alternate_request =
     \<lparr> origin = \<lparr> lat = 12.9166, lon = 77.6101 \<rparr>,
       destination = \<lparr> lat = 12.9716, lon = 77.5946 \<rparr>,
       mode = Car, departure_time = None, event_type = ''Concert'' \<rparr>"

text \<open>A reply in the Directions format of Google Maps, as \<open>GoogleMapsClient.get_route\<close>
  returns it: distance and duration are inside the legs; the route itself has no
  \<open>distance\<close>, \<open>duration\<close> or \<open>geometry\<close>.\<close>

definition google_route :: "(string \<times> json) list" where
  "google_route =
     [(''summary'', JStr ''Hosur Rd''),
      (''overview_polyline'', JDict [(''points'', JStr ''_p~iF~ps|U'')]),
      (''legs'', JList [JDict
         [(''distance'', JDict [(''text'', JStr ''7.4 km''), (''value'', JNum 7400)]),
          (''duration'', JDict [(''text'', JStr ''21 mins''), (''value'', JNum 1260)]),
          (''steps'', JList [])]])]"

definition google_reply :: json where
  "google_reply = JDict [(''status'', JStr ''OK''), (''routes'', JList [JDict google_route])]"

text \<open>A reply in the format of OSRM and Mapbox.\<close>

definition osrm_route :: "(string \<times> json) list" where
  "osrm_route =
     [(''geometry'', JStr ''_p~iF~ps|U''),
      (''distance'', JNum 7400),
      (''duration'', JNum 1260),
      (''legs'', JList [JDict [(''steps'', JList [])]])]"

definition osrm_reply :: json where
  "osrm_reply = JDict [(''code'', JStr ''Ok''), (''routes'', JList [JDict osrm_route])]"

text \<open>Every client returns the given reply.\<close>

definition reply_clients :: "json \<Rightarrow> RoutingProvider \<Rightarrow> provider_client" where
  "reply_clients reply p q = Inr reply"

definition example_text_request :: TextRouteRequest where
  "example_text_request =
     \<lparr> text_source = ''BTM Layout'', text_destination = ''MG Road'',
       text_event = ''rally'', text_mode = Car \<rparr>"

definition no_remote :: remote_geocoder where
  "no_remote place country = Inl TransportError"

definition no_parse :: "string \<Rightarrow> real option" where
  "no_parse s = None"

text \<open>Only a Mapbox key is set; only a Google key is set. \<open>ROUTING_PROVIDER\<close> is
  unset in both, so the preferred provider is the default.\<close>

definition mapbox_only_env :: environ where
  "mapbox_only_env = (\<lambda>name. if name = ''MAPBOX_API_KEY'' then Some ''pk.test'' else None)"

definition google_only_env :: environ where
  "google_only_env = (\<lambda>name. if name = ''GOOGLE_MAPS_API_KEY'' then Some ''g-key'' else None)"

text \<open>A JSON reply that is a list, as \<open>resp.json()\<close> of the OSRM or MapMyIndia client
  can yield: neither client looks at the shape of what it returns.\<close>

definition list_reply :: json where
  "list_reply = JList [JStr ''Ok'']"

definition fire_text_request :: TextRouteRequest where
  "fire_text_request =
     \<lparr> text_source = ''BTM Layout'', text_destination = ''MG Road'',
       text_event = ''fire'', text_mode = Car \<rparr>"

text \<open>Two gazetteer places with the same stored coordinate.\<close>

definition same_point_text_request :: TextRouteRequest where
  "same_point_text_request =
     \<lparr> text_source = ''MG Road'', text_destination = ''Cubbon Park'',
       text_event = ''rally'', text_mode = Car \<rparr>"

section \<open>The fallback chain\<close>

lemma chain_cases:
  "get_fallback_chain cfg =
     (if is_provider_configured cfg (preferred_provider cfg)
      then [preferred_provider cfg] else []) @
     filter (\<lambda>p. p \<noteq> preferred_provider cfg \<and> is_provider_configured cfg p) all_providers"
  by (cases "preferred_provider cfg")
     (simp_all add: get_fallback_chain_def all_providers_def Let_def)

lemma chain_distinct: "distinct (get_fallback_chain cfg)"
  by (cases "preferred_provider cfg") (simp_all add: chain_cases all_providers_def)

lemma chain_set: "set (get_fallback_chain cfg) = {p. is_provider_configured cfg p}"
proof -
  have "p \<in> set (get_fallback_chain cfg) \<longleftrightarrow> is_provider_configured cfg p" for p
    by (cases "preferred_provider cfg"; cases p) (simp_all add: chain_cases all_providers_def)
  then show ?thesis by blast
qed

lemma chain_preferred_first:
  "is_provider_configured cfg (preferred_provider cfg) \<longleftrightarrow>
   hd (get_fallback_chain cfg) = preferred_provider cfg"
  by (cases "preferred_provider cfg") (simp_all add: chain_cases all_providers_def)

lemma chain_others_in_order:
  "filter (\<lambda>p. p \<noteq> preferred_provider cfg) (get_fallback_chain cfg) =
   filter (\<lambda>p. p \<noteq> preferred_provider cfg \<and> is_provider_configured cfg p) all_providers"
  by (cases "preferred_provider cfg") (simp_all add: chain_cases all_providers_def)

lemma chain_osrm_last:
  "preferred_provider cfg \<noteq> OSRM \<Longrightarrow>
   \<exists>ys. get_fallback_chain cfg = ys @ [OSRM] \<and> OSRM \<notin> set ys"
  by (cases "preferred_provider cfg") (simp_all add: chain_cases all_providers_def)

lemma chain_osrm_once: "count_list (get_fallback_chain cfg) OSRM = 1"
  by (cases "preferred_provider cfg") (simp_all add: chain_cases all_providers_def)

text \<open>
  C1 does not hold of the code. With only a Mapbox key in the environment the preferred
  provider is the default, OSRM, and the chain is OSRM followed by Mapbox: OSRM is in
  the chain once, but at the first position, not the last. The final test of
  \<open>get_fallback_chain\<close>, which appends OSRM when it is missing, changes nothing here
  or anywhere (\<open>chain_cases\<close>): OSRM is in the chain before it is reached.
\<close>

theorem fallback_chain_osrm_not_last:
  "preferred_provider (RoutingConfig_init mapbox_only_env) = OSRM \<and>
   get_fallback_chain (RoutingConfig_init mapbox_only_env) = [OSRM, MAPBOX] \<and>
   last (get_fallback_chain (RoutingConfig_init mapbox_only_env)) \<noteq> OSRM"
  by (simp add: mapbox_only_env_def RoutingConfig_init_def getenv_default_def
      RoutingProvider_of_def all_providers_def py_lower_def py_lower_char_def
      get_fallback_chain_def py_bool_str_def Let_def)

text \<open>
  C4 does not hold of the code. With only a Google key in the environment the preferred
  provider is the default, OSRM; Google is a configured provider other than the
  preferred one, and the chain places it after OSRM, not before.
\<close>

theorem fallback_chain_others_after_osrm:
  "is_provider_configured (RoutingConfig_init google_only_env) GOOGLE_MAPS \<and>
   GOOGLE_MAPS \<noteq> preferred_provider (RoutingConfig_init google_only_env) \<and>
   get_fallback_chain (RoutingConfig_init google_only_env) = [OSRM, GOOGLE_MAPS]"
  by (simp add: google_only_env_def RoutingConfig_init_def getenv_default_def
      RoutingProvider_of_def all_providers_def py_lower_def py_lower_char_def
      get_fallback_chain_def py_bool_str_def Let_def)

section \<open>The router manager\<close>

lemma attempt_init:
  "attempt_provider (RouterManager_init cfg clients) q p =
     (case clients p q of
        Inl e \<Rightarrow> None
      | Inr result \<Rightarrow>
          if py_truthy result then
            Some (case result of
                    JDict d \<Rightarrow> JDict (dict_set ''_provider_used'' (JStr (provider_value p)) d)
                  | _ \<Rightarrow> result)
          else None)"
  by (simp add: attempt_provider_def RouterManager_init_def)

lemma try_providers_first_success:
  assumes "\<forall>p \<in> set pre. attempt_provider self q p = None"
    and "attempt_provider self q p = Some r"
  shows "try_providers self q (pre @ p # post) = (Inr r, pre @ [p])"
  using assms by (induction pre) simp_all

lemma try_providers_all_fail:
  "\<forall>p \<in> set ps. attempt_provider self q p = None \<Longrightarrow>
   try_providers self q ps = (Inr JNull, ps)"
  by (induction ps) simp_all

lemma try_providers_returns: "\<exists>r. fst (try_providers self q ps) = Inr r"
  by (induction ps) (auto split: option.splits prod.splits)

lemma provider_order_distinct:
  "distinct (provider_order (RouterManager_init cfg clients) preferred)"
  by (auto simp: provider_order_def RouterManager_init_def chain_distinct split: option.splits)

lemma example_order:
  "provider_order (RouterManager_init (example_config (Some ''pk.test'') None MAPBOX) clients)
     None = [MAPBOX, OSRM]"
  by (simp add: provider_order_def RouterManager_init_def example_config_def
      get_fallback_chain_def all_providers_def py_bool_str_def)

lemma list_reply_order:
  "provider_order (RouterManager_init (example_config None None OSRM) clients) None = [OSRM]"
  by (simp add: provider_order_def RouterManager_init_def example_config_def
      get_fallback_chain_def all_providers_def py_bool_str_def)

text \<open>
  C2, as stated, fails: a provider succeeds when what it returns is true, and the tag is
  set only on a dictionary. OSRM answering with a JSON list succeeds, and the list is
  returned as it is, with no \<open>_provider_used\<close>.
\<close>

theorem get_route_untagged_counterexample:
  "get_route (RouterManager_init (example_config None None OSRM) (reply_clients list_reply))
     example_query None
   = (Inr (JList [JStr ''Ok'']), [OSRM])"
  by (simp add: get_route_def list_reply_order attempt_init reply_clients_def list_reply_def)

text \<open>
  C2, amended: let the manager be built from a configuration and its clients, and let
  the effective provider order be given. If each of the first \<open>k\<close> providers of the
  order yields no route (it raises or returns a false value) and the next one returns a
  true value, then \<open>get_route\<close> returns that value: with \<open>_provider_used\<close> set to
  that provider's name when the value is a dictionary, unchanged when it is not. The
  providers invoked are exactly the first \<open>k + 1\<close> of the order, in order and each
  once: nothing after the first success, nothing twice.
\<close>

theorem get_route_first_success:
  assumes "self = RouterManager_init cfg clients"
    and "order = provider_order self preferred"
    and "k < length order"
    and "\<forall>i<k. no_route (clients (order ! i) q)"
    and "clients (order ! k) q = Inr result"
    and "py_truthy result"
  shows "get_route self q preferred =
           (Inr (case result of
                   JDict d \<Rightarrow>
                     JDict (dict_set ''_provider_used'' (JStr (provider_value (order ! k))) d)
                 | _ \<Rightarrow> result),
            take (Suc k) order)
         \<and> distinct (take (Suc k) order)"
proof -
  let ?r = "case result of
              JDict d \<Rightarrow>
                JDict (dict_set ''_provider_used'' (JStr (provider_value (order ! k))) d)
            | _ \<Rightarrow> result"
  have parts: "order = take k order @ order ! k # drop (Suc k) order"
    using assms(3) by (simp add: id_take_nth_drop)
  have pre: "\<forall>p \<in> set (take k order). attempt_provider self q p = None"
  proof
    fix p assume "p \<in> set (take k order)"
    then obtain i where "i < k" "p = order ! i"
      using assms(3) by (auto simp: in_set_conv_nth)
    with assms(4) have "no_route (clients p q)" by simp
    then show "attempt_provider self q p = None"
      by (auto simp: assms(1) attempt_init no_route_def split: sum.splits)
  qed
  have hit: "attempt_provider self q (order ! k) = Some ?r"
    using assms(5,6) by (simp add: assms(1) attempt_init)
  have "try_providers self q (take k order @ order ! k # drop (Suc k) order)
        = (Inr ?r, take k order @ [order ! k])"
    by (rule try_providers_first_success [OF pre hit])
  moreover have "take k order @ [order ! k] = take (Suc k) order"
    using assms(3) by (simp add: take_Suc_conv_app_nth)
  ultimately have "get_route self q preferred = (Inr ?r, take (Suc k) order)"
    using parts by (simp add: get_route_def assms(2)[symmetric])
  moreover have "distinct (take (Suc k) order)"
    by (simp add: assms(1,2) provider_order_distinct)
  ultimately show ?thesis by simp
qed

theorem get_route_first_success_witness:
  "get_route (RouterManager_init (example_config (Some ''pk.test'') None MAPBOX) example_clients)
      example_query None
   = (Inr (JDict [(''code'', JStr ''Ok''),
                  (''routes'', JList [JDict [(''distance'', JNum 7000)]]),
                  (''_provider_used'', JStr ''osrm'')]),
      [MAPBOX, OSRM]) \<and>
   get_route (RouterManager_init (example_config None None OSRM) (reply_clients (JStr ''ok'')))
      example_query None
   = (Inr (JStr ''ok''), [OSRM])"
  using get_route_first_success
    [of "RouterManager_init (example_config (Some ''pk.test'') None MAPBOX) example_clients"
      "example_config (Some ''pk.test'') None MAPBOX" example_clients "[MAPBOX, OSRM]" None 1
      example_query
      "JDict [(''code'', JStr ''Ok''), (''routes'', JList [JDict [(''distance'', JNum 7000)]])]"]
    get_route_first_success
    [of "RouterManager_init (example_config None None OSRM) (reply_clients (JStr ''ok''))"
      "example_config None None OSRM" "reply_clients (JStr ''ok'')" "[OSRM]" None 0
      example_query "JStr ''ok''"]
  by (simp add: example_order list_reply_order example_clients_def reply_clients_def
      no_route_def)

text \<open>
  C3: \<open>get_route\<close> never raises: for every manager, query and preference it returns a
  value. If every provider of the effective order is missing, raises or returns nothing
  (an unconfigured client returns \<open>None\<close>), the value returned is \<open>None\<close>, after each
  provider of the order has been invoked once, in order.
\<close>

theorem get_route_all_fail_returns_none:
  "(\<exists>r. fst (get_route self q preferred) = Inr r) \<and>
   ((\<forall>p \<in> set (provider_order self preferred).
        case providers self p of None \<Rightarrow> True | Some client \<Rightarrow> no_route (client q))
    \<longrightarrow> get_route self q preferred = (Inr JNull, provider_order self preferred))"
proof (intro conjI impI)
  show "\<exists>r. fst (get_route self q preferred) = Inr r"
    by (simp add: get_route_def try_providers_returns)
next
  assume a: "\<forall>p \<in> set (provider_order self preferred).
        case providers self p of None \<Rightarrow> True | Some client \<Rightarrow> no_route (client q)"
  have "\<forall>p \<in> set (provider_order self preferred). attempt_provider self q p = None"
  proof
    fix p assume "p \<in> set (provider_order self preferred)"
    with a show "attempt_provider self q p = None"
      by (auto simp: attempt_provider_def no_route_def split: option.splits sum.splits)
  qed
  then show "get_route self q preferred = (Inr JNull, provider_order self preferred)"
    by (simp add: get_route_def try_providers_all_fail)
qed

theorem get_route_all_fail_returns_none_witness:
  "get_route
     (RouterManager_init (example_config (Some ''pk.test'') (Some ''g-key'') MAPBOX)
        failing_clients)
     example_query None
   = (Inr JNull, [MAPBOX, GOOGLE_MAPS, OSRM])"
  using get_route_all_fail_returns_none
    [of "RouterManager_init (example_config (Some ''pk.test'') (Some ''g-key'') MAPBOX)
           failing_clients" example_query None]
  by (simp add: provider_order_def RouterManager_init_def example_config_def
      get_fallback_chain_def all_providers_def py_bool_str_def failing_clients_def
      no_route_def)

section \<open>The MapMyIndia client\<close>

lemma mmi_get_token_no_route_request:
  "\<forall>r \<in> set (snd (snd (mmi_get_token c net))). \<not> is_route_request r"
  by (simp add: mmi_get_token_def Let_def split: sum.splits)

lemma mmi_no_key_result:
  assumes "\<not> py_bool_str (api_key c)"
  shows "fst (mmi_get_route c net q) = JNull"
    and "\<forall>r \<in> set (snd (snd (mmi_get_route c net q))). \<not> is_route_request r"
  using assms mmi_get_token_no_route_request [of c net]
  by (auto simp: mmi_get_route_def split: prod.splits)

text \<open>
  C9: when the environment sets the MapMyIndia client id and client secret and no API
  key, the provider counts as configured and is in the fallback chain, and the client
  is configured; yet for every query, every behaviour of the network and every cached
  token, \<open>get_route\<close> returns \<open>None\<close> and issues no routing request (at most the
  request for a token).
\<close>

theorem mapmyindia_oauth_only_never_routes:
  assumes "\<not> py_bool_str (env ''MAPMYINDIA_API_KEY'')"
    and "py_bool_str (env ''MAPMYINDIA_CLIENT_ID'')"
    and "py_bool_str (env ''MAPMYINDIA_CLIENT_SECRET'')"
    and "c = (MapMyIndiaClient_init env)\<lparr>token := cached\<rparr>"
  shows "is_provider_configured (RoutingConfig_init env) MAPMYINDIA \<and>
         MAPMYINDIA \<in> set (get_fallback_chain (RoutingConfig_init env)) \<and>
         is_configured c \<and>
         fst (mmi_get_route c net q) = JNull \<and>
         (\<forall>r \<in> set (snd (snd (mmi_get_route c net q))). \<not> is_route_request r)"
proof -
  have conf: "is_provider_configured (RoutingConfig_init env) MAPMYINDIA"
    using assms(2,3) by (simp add: RoutingConfig_init_def Let_def)
  have nokey: "\<not> py_bool_str (api_key c)"
    using assms(1,4) by (simp add: MapMyIndiaClient_init_def)
  have "is_configured c"
    using assms(2,3,4) by (simp add: MapMyIndiaClient_init_def)
  with conf mmi_no_key_result [OF nokey] show ?thesis
    by (simp add: chain_set)
qed

theorem mapmyindia_oauth_only_never_routes_witness:
  "is_provider_configured (RoutingConfig_init oauth_only_env) MAPMYINDIA \<and>
   get_fallback_chain (RoutingConfig_init oauth_only_env) = [OSRM, MAPMYINDIA] \<and>
   mmi_get_route (MapMyIndiaClient_init oauth_only_env) token_granting_net example_query
     = (JNull, (MapMyIndiaClient_init oauth_only_env)\<lparr>token := JStr ''tok-1''\<rparr>,
        [TokenPost MMI_TOKEN_URL ''client-id'' ''client-secret''])"
  using mapmyindia_oauth_only_never_routes
    [of oauth_only_env "MapMyIndiaClient_init oauth_only_env" JNull token_granting_net
      example_query]
  by (simp add: oauth_only_env_def MapMyIndiaClient_init_def RoutingConfig_init_def
      getenv_default_def RoutingProvider_of_def all_providers_def py_lower_def
      py_lower_char_def get_fallback_chain_def py_bool_str_def mmi_get_route_def
      mmi_get_token_def token_granting_net_def dict_get_def Let_def)


section \<open>The haversine distance\<close>

lemma sin_half_squared: "(sin (x / 2)) ^ 2 = (1 - cos x) / (2::real)"
  using cos_double_sin [of "x / 2"] by simp

lemma radians_diff: "radians (x - y) = radians x - radians y"
  by (simp add: radians_def diff_divide_distrib left_diff_distrib)

lemma haversine_a_cos:
  "haversine_a lat1 lon1 lat2 lon2 =
     (1 - (sin (radians lat1) * sin (radians lat2)
           + cos (radians lat1) * cos (radians lat2) * cos (radians (lon2 - lon1)))) / 2"
proof -
  have dlat: "cos (radians (lat2 - lat1)) =
        cos (radians lat2) * cos (radians lat1) + sin (radians lat2) * sin (radians lat1)"
    by (simp add: radians_diff cos_diff)
  have "haversine_a lat1 lon1 lat2 lon2 =
        (1 - cos (radians (lat2 - lat1))) / 2
        + cos (radians lat1) * cos (radians lat2) * ((1 - cos (radians (lon2 - lon1))) / 2)"
    by (simp add: haversine_a_def Let_def sin_half_squared)
  also have "\<dots> = (1 - (sin (radians lat1) * sin (radians lat2)
           + cos (radians lat1) * cos (radians lat2) * cos (radians (lon2 - lon1)))) / 2"
    unfolding dlat by (simp add: field_simps)
  finally show ?thesis .
qed

text \<open>The cosine of the central angle is a weighted mean of \<open>cos (a - b)\<close> and
  \<open>- cos (a + b)\<close>, so it lies between -1 and 1.\<close>

lemma cos_angle_range:
  fixes a b d :: real
  shows "\<bar>sin a * sin b + cos a * cos b * cos d\<bar> \<le> 1"
proof -
  let ?k = "cos d" and ?u = "cos (a - b)" and ?v = "cos (a + b)"
  have eq: "sin a * sin b + cos a * cos b * ?k = ((1 + ?k) * ?u - (1 - ?k) * ?v) / 2"
    by (simp add: cos_diff cos_add algebra_simps)
  have k: "0 \<le> 1 + ?k" "0 \<le> 1 - ?k"
    using cos_ge_minus_one [of d] cos_le_one [of d] by linarith+
  have u: "\<bar>?u\<bar> \<le> 1" and v: "\<bar>?v\<bar> \<le> 1" by (rule abs_cos_le_one)+
  have "\<bar>(1 + ?k) * ?u\<bar> \<le> 1 + ?k"
    using mult_left_le [OF u k(1)] k(1) by (simp add: abs_mult)
  moreover have "\<bar>(1 - ?k) * ?v\<bar> \<le> 1 - ?k"
    using mult_left_le [OF v k(2)] k(2) by (simp add: abs_mult)
  ultimately have "\<bar>(1 + ?k) * ?u - (1 - ?k) * ?v\<bar> \<le> 2" by linarith
  then show ?thesis unfolding eq by simp
qed

lemma haversine_a_range:
  "0 \<le> haversine_a lat1 lon1 lat2 lon2 \<and> haversine_a lat1 lon1 lat2 lon2 \<le> 1"
  using cos_angle_range [of "radians lat1" "radians lat2" "radians (lon2 - lon1)"]
  by (simp add: haversine_a_cos abs_le_iff)

lemma two_arcsin_sqrt:
  fixes x :: real
  assumes "\<bar>x\<bar> \<le> 1"
  shows "2 * arcsin (sqrt ((1 - x) / 2)) = arccos x"
proof -
  define t where "t = arccos x"
  have t: "0 \<le> t" "t \<le> pi" "cos t = x"
    using assms by (simp_all add: t_def arccos_lbound arccos_ubound abs_le_iff)
  have "(1 - x) / 2 = (sin (t / 2)) ^ 2"
    by (simp add: sin_half_squared t(3))
  moreover have "0 \<le> sin (t / 2)"
    using t(1,2) by (intro sin_ge_zero) simp_all
  ultimately have "sqrt ((1 - x) / 2) = sin (t / 2)" by simp
  moreover have "arcsin (sin (t / 2)) = t / 2"
    using t(1,2) pi_ge_zero by (intro arcsin_sin) simp_all
  ultimately show ?thesis by (simp add: t_def)
qed

lemma haversine_is_arc:
  "haversine_distance_m lat1 lon1 lat2 lon2 =
     6371000 * angular_separation lat1 lon1 lat2 lon2"
  using two_arcsin_sqrt
    [OF cos_angle_range [of "radians lat1" "radians lat2" "radians (lon2 - lon1)"]]
  by (simp add: haversine_distance_m_def Let_def haversine_a_cos angular_separation_def)

lemma angular_separation_sym:
  "angular_separation lat1 lon1 lat2 lon2 = angular_separation lat2 lon2 lat1 lon1"
proof -
  have "radians (lon2 - lon1) = - radians (lon1 - lon2)"
    by (simp add: radians_diff)
  then show ?thesis
    by (simp add: angular_separation_def mult.commute)
qed

lemma angular_separation_self: "angular_separation la lo la lo = 0"
proof -
  have "sin (radians la) * sin (radians la) + cos (radians la) * cos (radians la) = 1"
    using sin_cos_squared_add [of "radians la"] by (simp add: power2_eq_square)
  then show ?thesis
    by (simp add: angular_separation_def radians_def)
qed

text \<open>
  C8: over the real numbers, for all coordinates, the haversine distance of a point to
  itself is 0; the distance is symmetric; it is the Earth radius times the angular
  separation of the two points, and so it does not decrease when the angular separation
  grows.
\<close>

theorem haversine_zero_symmetric_monotone:
  "haversine_distance_m la lo la lo = 0 \<and>
   haversine_distance_m lat1 lon1 lat2 lon2 = haversine_distance_m lat2 lon2 lat1 lon1 \<and>
   haversine_distance_m lat1 lon1 lat2 lon2
     = 6371000 * angular_separation lat1 lon1 lat2 lon2 \<and>
   (angular_separation lat1 lon1 lat2 lon2 \<le> angular_separation lat3 lon3 lat4 lon4 \<longrightarrow>
      haversine_distance_m lat1 lon1 lat2 lon2 \<le> haversine_distance_m lat3 lon3 lat4 lon4)"
  using angular_separation_sym [of lat1 lon1 lat2 lon2]
  by (simp add: haversine_is_arc angular_separation_self)

theorem haversine_zero_symmetric_monotone_witness:
  "angular_separation 0 0 0 0 \<le> angular_separation 0 0 0 90 \<and>
   haversine_distance_m 0 0 0 0 \<le> haversine_distance_m 0 0 0 90 \<and>
   haversine_distance_m 0 0 0 0 = 0 \<and>
   haversine_distance_m 0 0 0 90 = 6371000 * (pi / 2)"
  using haversine_zero_symmetric_monotone [of 0 0 0 0 0 0 0 0 0 90]
    haversine_zero_symmetric_monotone [of 0 0 0 0 0 90 0 0 0 0]
  by (simp add: angular_separation_def radians_def)

section \<open>Resolving a place name\<close>

lemma location_keys_distinct: "distinct (map fst LOCATION_DB)"
  by (simp add: LOCATION_DB_def)

lemma geocode_location_returns: "\<exists>r. geocode_location gc remote name = Inr r"
  by (simp add: geocode_location_def Let_def split: option.splits sum.splits)

lemma normalized_mg_road: "py_strip (py_lower '' MG Road '') = ''mg road''"
  by code_simp

lemma normalized_mysuru: "py_strip (py_lower ''mysuru palace'') = ''mysuru palace''"
  by code_simp

lemma title_mysuru: "py_title ''mysuru palace'' = ''Mysuru Palace''"
  by code_simp

text \<open>
  C7: if the lower-cased, stripped name is a key of the gazetteer, resolution returns
  the stored entry (coordinate and display name) unchanged. If it equals no key, is
  contained in no key and contains no key, and the remote geocoder is not configured,
  resolution returns the default coordinate (12.9716, 77.5946) with the title-cased
  input as display name. Resolution never raises: it returns a value for every name,
  geocoder and network.
\<close>

theorem geocode_location_tiers:
  "((key, entry) \<in> set LOCATION_DB \<and> py_strip (py_lower name) = key
      \<longrightarrow> geocode_location gc remote name = Inr entry) \<and>
   ((\<forall>kv \<in> set LOCATION_DB. fst kv \<noteq> py_strip (py_lower name)
         \<and> \<not> py_in (py_strip (py_lower name)) (fst kv)
         \<and> \<not> py_in (fst kv) (py_strip (py_lower name)))
      \<and> \<not> geocoder_is_configured gc
      \<longrightarrow> geocode_location gc remote name
            = Inr \<lparr> lat = 12.9716, lon = 77.5946, display = py_title name,
                    full_name = None \<rparr>) \<and>
   (\<exists>r. geocode_location gc remote name = Inr r)"
proof (intro conjI impI)
  assume "(key, entry) \<in> set LOCATION_DB \<and> py_strip (py_lower name) = key"
  then have "map_of LOCATION_DB (py_strip (py_lower name)) = Some entry"
    using location_keys_distinct by simp
  then show "geocode_location gc remote name = Inr entry"
    by (simp add: geocode_location_def Let_def)
next
  assume a: "(\<forall>kv \<in> set LOCATION_DB. fst kv \<noteq> py_strip (py_lower name)
         \<and> \<not> py_in (py_strip (py_lower name)) (fst kv)
         \<and> \<not> py_in (fst kv) (py_strip (py_lower name)))
      \<and> \<not> geocoder_is_configured gc"
  then have "map_of LOCATION_DB (py_strip (py_lower name)) = None"
    by (force simp: map_of_eq_None_iff)
  moreover from a have "find (partial_match (py_strip (py_lower name))) LOCATION_DB = None"
    by (auto simp: find_None_iff partial_match_def)
  ultimately show "geocode_location gc remote name
            = Inr \<lparr> lat = 12.9716, lon = 77.5946, display = py_title name,
                    full_name = None \<rparr>"
    using a by (simp add: geocode_location_def Let_def geo_def)
next
  show "\<exists>r. geocode_location gc remote name = Inr r"
    by (rule geocode_location_returns)
qed

theorem geocode_location_tiers_witness:
  "geocode_location (MapboxGeocoder_init None) (\<lambda>place country. Inl TransportError)
       '' MG Road ''
     = Inr \<lparr> lat = 12.9716, lon = 77.5946, display = ''MG Road'', full_name = None \<rparr> \<and>
   geocode_location (MapboxGeocoder_init None) (\<lambda>place country. Inl TransportError)
       ''mysuru palace''
     = Inr \<lparr> lat = 12.9716, lon = 77.5946, display = ''Mysuru Palace'', full_name = None \<rparr>"
  using geocode_location_tiers
          [of "''mg road''" "geo 12.9716 77.5946 ''MG Road''" "'' MG Road ''"
              "MapboxGeocoder_init None" "\<lambda>place country. Inl TransportError"]
        geocode_location_tiers
          [of "''mg road''" "geo 12.9716 77.5946 ''MG Road''" "''mysuru palace''"
              "MapboxGeocoder_init None" "\<lambda>place country. Inl TransportError"]
  by (simp add: normalized_mg_road normalized_mysuru title_mysuru LOCATION_DB_def geo_def
      MapboxGeocoder_init_def py_bool_str_def)


section \<open>plan\_route and the unbound client\<close>

lemma mmi_client_unbound: "routing_mmi_client env = None"
  by (simp add: routing_mmi_client_def routing_module_names_def)

lemma plan_route_unbound_name:
  "plan_route parse (routing_mmi_client env) net payload = Inl (NameError ''mmi_client'')"
  by (simp add: plan_route_def mmi_client_unbound)

text \<open>With the name bound to a client, \<open>plan_route\<close> returns a response whatever the
  client and the network do.\<close>

lemma plan_route_bound_returns:
  "\<exists>r. plan_route parse (Some client) net payload = Inr r"
  by (simp add: plan_route_def Let_def split: sum.splits option.splits)

text \<open>
  C5 does not hold of the code: \<open>plan_route\<close> reads the name \<open>mmi_client\<close>, which
  routes/routing.py never binds, so the call raises \<open>NameError\<close> before any provider is
  tried or any estimate is computed, for the example request as for every other; and
  \<open>plan_alternate_route\<close>, which calls it, raises with it.
\<close>

theorem plan_route_raises_name_error:
  "plan_route no_parse (routing_mmi_client oauth_only_env) token_granting_net example_request
     = Inl (NameError ''mmi_client'') \<and>
   plan_alternate_route no_parse (routing_mmi_client oauth_only_env) token_granting_net
       example_alternate_request
     = Inl (NameError ''mmi_client'')"
  by (simp add: plan_alternate_route_def py_then_def plan_route_def routing_mmi_client_def
      routing_module_names_def)


section \<open>suggest\_text\_route: evaluation\<close>

lemma estimate_speed_positive: "0 < estimate_speed_mps m"
  by (cases m) simp_all

lemma mock_steps_are_dicts: "list_all is_dict (snd (mock_path s t wps pts))"
  by (simp add: mock_path_def step_of_def list_all_iff)

lemma normalized_btm: "py_strip (py_lower ''BTM Layout'') = ''btm layout''"
  by code_simp

lemma normalized_mg: "py_strip (py_lower ''MG Road'') = ''mg road''"
  by code_simp

lemma normalized_cubbon: "py_strip (py_lower ''Cubbon Park'') = ''cubbon park''"
  by code_simp

lemma normalized_fire: "py_strip (py_lower ''fire'') = ''fire''"
  by code_simp

lemma lower_rally: "py_lower ''rally'' = ''rally''"
  by code_simp

lemma strip_rally: "py_strip ''rally'' = ''rally''"
  by code_simp

lemma geocode_btm:
  "geocode_location (MapboxGeocoder_init None) no_remote ''BTM Layout''
     = Inr (geo 12.9166 77.6101 ''BTM Layout'')"
  by (simp add: geocode_location_def normalized_btm LOCATION_DB_def Let_def)

lemma geocode_mg:
  "geocode_location (MapboxGeocoder_init None) no_remote ''MG Road''
     = Inr (geo 12.9716 77.5946 ''MG Road'')"
  by (simp add: geocode_location_def normalized_mg LOCATION_DB_def Let_def)

lemma geocode_cubbon:
  "geocode_location (MapboxGeocoder_init None) no_remote ''Cubbon Park''
     = Inr (geo 12.9716 77.5946 ''Cubbon Park'')"
  by (simp add: geocode_location_def normalized_cubbon LOCATION_DB_def Let_def)

lemma haversine_same_point: "haversine_distance_m la lo la lo = 0"
  by (simp add: haversine_is_arc angular_separation_self)

lemma no_reply_locals: "use_provider_route parse JNull l0 = l0"
  by (simp add: use_provider_route_def)

lemma failing_manager_route:
  "fst (get_route (RouterManager_init (example_config None None OSRM) failing_clients) q None)
     = Inr JNull"
  by (simp add: get_route_def provider_order_def RouterManager_init_def example_config_def
      get_fallback_chain_def all_providers_def py_bool_str_def attempt_provider_def
      failing_clients_def)

lemma google_manager_route:
  "fst (get_route (RouterManager_init (example_config None (Some ''g-key'') GOOGLE_MAPS)
                     (reply_clients google_reply)) q None)
     = Inr (JDict [(''status'', JStr ''OK''),
                   (''routes'', JList [JDict google_route]),
                   (''_provider_used'', JStr ''google'')])"
  by (simp add: get_route_def provider_order_def RouterManager_init_def example_config_def
      get_fallback_chain_def all_providers_def py_bool_str_def attempt_provider_def
      reply_clients_def google_reply_def)

lemma osrm_manager_route:
  "fst (get_route (RouterManager_init (example_config None None OSRM)
                     (reply_clients osrm_reply)) q None)
     = Inr (JDict [(''code'', JStr ''Ok''),
                   (''routes'', JList [JDict osrm_route]),
                   (''_provider_used'', JStr ''osrm'')])"
  by (simp add: get_route_def provider_order_def RouterManager_init_def example_config_def
      get_fallback_chain_def all_providers_def py_bool_str_def attempt_provider_def
      reply_clients_def osrm_reply_def)

text \<open>What the \<open>try\<close> block leaves after a reply in Google's format and after one in
  OSRM's format: the first keeps the distance and duration it started with.\<close>

lemma google_locals:
  "use_provider_route parse
     (JDict [(''status'', JStr ''OK''), (''routes'', JList [JDict google_route]),
             (''_provider_used'', JStr ''google'')])
     \<lparr> l_geometry = JStr [], l_distance_m = d, l_duration_s = t, l_steps = [],
       l_provider_used = JStr ''fallback'' \<rparr>
   = \<lparr> l_geometry = JStr [], l_distance_m = d, l_duration_s = t, l_steps = [],
       l_provider_used = JStr ''google'' \<rparr>"
  by (simp add: use_provider_route_def py_then_def dict_get_def google_route_def Let_def)

lemma osrm_locals:
  "use_provider_route parse
     (JDict [(''code'', JStr ''Ok''), (''routes'', JList [JDict osrm_route]),
             (''_provider_used'', JStr ''osrm'')])
     \<lparr> l_geometry = JStr [], l_distance_m = d, l_duration_s = t, l_steps = [],
       l_provider_used = JStr ''fallback'' \<rparr>
   = \<lparr> l_geometry = JStr ''_p~iF~ps|U'', l_distance_m = 7400, l_duration_s = 1260,
       l_steps = [], l_provider_used = JStr ''osrm'' \<rparr>"
  by (simp add: use_provider_route_def py_then_def dict_get_def osrm_route_def Let_def)

text \<open>In general: a first route with a numeric \<open>distance\<close> and \<open>duration\<close> replaces
  the estimate; a first route without these fields leaves it.\<close>

lemma use_provider_route_values:
  assumes "map_of resp ''routes'' = Some (JList (JDict route # others))"
  shows "map_of route ''distance'' = Some (JNum dv) \<Longrightarrow>
           l_distance_m (use_provider_route parse (JDict resp) l0) = dv"
    and "map_of route ''distance'' = Some (JNum dv) \<Longrightarrow>
         map_of route ''duration'' = Some (JNum tv) \<Longrightarrow>
           l_duration_s (use_provider_route parse (JDict resp) l0) = tv"
    and "map_of route ''distance'' = None \<Longrightarrow>
           l_distance_m (use_provider_route parse (JDict resp) l0) = l_distance_m l0"
    and "map_of route ''distance'' = None \<Longrightarrow> map_of route ''duration'' = None \<Longrightarrow>
           l_duration_s (use_provider_route parse (JDict resp) l0) = l_duration_s l0"
  using assms
  by (cases resp; auto simp: use_provider_route_def py_then_def dict_get_def Let_def
      split: sum.splits prod.splits bool.splits)+

section \<open>Event multipliers\<close>

lemma rally_multiplied:
  "apply_event_multiplier ''rally'' h rsn = (h * 1.2, ''Avoiding rally congestion'')"
  by (simp add: apply_event_multiplier_def lower_rally strip_rally any_in_def)

lemma fire_unmultiplied: "apply_event_multiplier ''fire'' h rsn = (h, rsn)"
  by (simp add: apply_event_multiplier_def normalized_fire any_in_def)

text \<open>In \<open>suggest_text_route\<close> an event text with none of the keywords leaves the
  distance and the reason as they are.\<close>

lemma unrecognized_event_unmultiplied:
  "\<not> any_in [''rally'', ''protest'', ''parade'', ''political''] (py_strip (py_lower ev)) \<Longrightarrow>
   \<not> any_in [''closure'', ''accident'', ''construction''] (py_strip (py_lower ev)) \<Longrightarrow>
   \<not> any_in [''concert'', ''sports'', ''event''] (py_strip (py_lower ev)) \<Longrightarrow>
   apply_event_multiplier ev h rsn = (h, rsn)"
  by (simp add: apply_event_multiplier_def Let_def)

text \<open>The recognized events of \<open>suggest_text_route\<close>, and the empty one.\<close>

lemma recognized_event_multiplied:
  "apply_event_multiplier [] h rsn = (h, rsn)"
  "ev \<noteq> [] \<Longrightarrow>
   any_in [''rally'', ''protest'', ''parade'', ''political''] (py_strip (py_lower ev)) \<Longrightarrow>
   fst (apply_event_multiplier ev h rsn) = h * 1.2"
  "ev \<noteq> [] \<Longrightarrow>
   \<not> any_in [''rally'', ''protest'', ''parade'', ''political''] (py_strip (py_lower ev)) \<Longrightarrow>
   any_in [''closure'', ''accident'', ''construction''] (py_strip (py_lower ev)) \<Longrightarrow>
   fst (apply_event_multiplier ev h rsn) = h * 1.3"
  "ev \<noteq> [] \<Longrightarrow>
   \<not> any_in [''rally'', ''protest'', ''parade'', ''political''] (py_strip (py_lower ev)) \<Longrightarrow>
   \<not> any_in [''closure'', ''accident'', ''construction''] (py_strip (py_lower ev)) \<Longrightarrow>
   any_in [''concert'', ''sports'', ''event''] (py_strip (py_lower ev)) \<Longrightarrow>
   fst (apply_event_multiplier ev h rsn) = h * 1.15"
  by (simp_all add: apply_event_multiplier_def Let_def)

text \<open>The table written in \<open>plan_alternate_route\<close> gives every event type that is
  not one of its nine names the factor 1.05.\<close>

lemma alternate_table_default:
  "n \<notin> set [''road_closure'', ''accident'', ''construction'', ''protest'', ''rally'',
              ''parade'', ''concert'', ''sports'', ''event'']
   \<Longrightarrow> fst (alternate_event_factor n) = 1.05"
  by (simp add: alternate_event_factor_def)

text \<open>
  C6 does not hold of the code. In \<open>suggest_text_route\<close> the non-empty, unrecognized
  event \<open>fire\<close> leaves the estimated distance unmultiplied: a distance of 1000 stays
  1000, where the claim gives 1050. For the request from BTM Layout to MG Road with this
  event and no provider answering, the returned distance is the haversine distance
  itself and the duration that distance over the car speed.
\<close>

theorem suggest_unrecognized_event_factor_one:
  "apply_event_multiplier ''fire'' 1000 ''Optimal route via Richmond Circle''
     = (1000, ''Optimal route via Richmond Circle'') \<and>
   (case suggest_text_route no_parse (MapboxGeocoder_init None) no_remote
           (RouterManager_init (example_config None None OSRM) failing_clients)
           fire_text_request of
      Inl e \<Rightarrow> False
    | Inr r \<Rightarrow>
        distance_meters r
          = py_round (haversine_distance_m 12.9166 77.6101 12.9716 77.5946) 2 \<and>
        duration_seconds r
          = py_round (haversine_distance_m 12.9166 77.6101 12.9716 77.5946 / 13.9) 1)"
  by (simp add: suggest_text_route_def py_then_def fire_text_request_def geocode_btm geocode_mg
      failing_manager_route fire_unmultiplied no_reply_locals geo_def Let_def
      mock_steps_are_dicts)

section \<open>suggest\_text\_route and the provider's values\<close>

text \<open>A reply in the format of OSRM has its distance and duration returned.\<close>

lemma suggest_route_osrm_values:
  "(case suggest_text_route no_parse (MapboxGeocoder_init None) no_remote
           (RouterManager_init (example_config None None OSRM) (reply_clients osrm_reply))
           example_text_request of
      Inl e \<Rightarrow> False
    | Inr r \<Rightarrow> distance_meters r = 7400 \<and> duration_seconds r = 1260)"
  by (simp add: suggest_text_route_def py_then_def example_text_request_def geocode_btm
      geocode_mg osrm_manager_route osrm_locals rally_multiplied geo_def Let_def
      py_round_def)

text \<open>
  C10 does not hold of the code. Google answers with a route of 7400 metres and 1260
  seconds, and the event is a rally. For the request from BTM Layout to MG Road the
  returned distance and duration are the haversine estimate times 1.2 and that distance
  over the car speed; for the request from MG Road to Cubbon Park, which the gazetteer
  stores at one coordinate, they are 0. Neither is the provider's value: a route in
  Google's format has no \<open>distance\<close> and no \<open>duration\<close> field of its own.
\<close>

theorem suggest_route_google_keeps_estimate:
  "fst (get_route (RouterManager_init (example_config None (Some ''g-key'') GOOGLE_MAPS)
                     (reply_clients google_reply))
          (query_of (geo 12.9166 77.6101 ''BTM Layout'') (geo 12.9716 77.5946 ''MG Road'')
             ''car'') None)
     = Inr (JDict [(''status'', JStr ''OK''),
                   (''routes'', JList [JDict google_route]),
                   (''_provider_used'', JStr ''google'')]) \<and>
   (case suggest_text_route no_parse (MapboxGeocoder_init None) no_remote
           (RouterManager_init (example_config None (Some ''g-key'') GOOGLE_MAPS)
              (reply_clients google_reply))
           example_text_request of
      Inl e \<Rightarrow> False
    | Inr r \<Rightarrow>
        distance_meters r
          = py_round (haversine_distance_m 12.9166 77.6101 12.9716 77.5946 * 1.2) 2 \<and>
        duration_seconds r
          = py_round (haversine_distance_m 12.9166 77.6101 12.9716 77.5946 * 1.2 / 13.9) 1) \<and>
   (case suggest_text_route no_parse (MapboxGeocoder_init None) no_remote
           (RouterManager_init (example_config None (Some ''g-key'') GOOGLE_MAPS)
              (reply_clients google_reply))
           same_point_text_request of
      Inl e \<Rightarrow> False
    | Inr r \<Rightarrow> distance_meters r = 0 \<and> duration_seconds r = 0)"
proof (intro conjI)
  show "fst (get_route (RouterManager_init (example_config None (Some ''g-key'') GOOGLE_MAPS)
                     (reply_clients google_reply))
          (query_of (geo 12.9166 77.6101 ''BTM Layout'') (geo 12.9716 77.5946 ''MG Road'')
             ''car'') None)
     = Inr (JDict [(''status'', JStr ''OK''),
                   (''routes'', JList [JDict google_route]),
                   (''_provider_used'', JStr ''google'')])"
    by (rule google_manager_route)
  show "case suggest_text_route no_parse (MapboxGeocoder_init None) no_remote
           (RouterManager_init (example_config None (Some ''g-key'') GOOGLE_MAPS)
              (reply_clients google_reply))
           example_text_request of
      Inl e \<Rightarrow> False
    | Inr r \<Rightarrow>
        distance_meters r
          = py_round (haversine_distance_m 12.9166 77.6101 12.9716 77.5946 * 1.2) 2 \<and>
        duration_seconds r
          = py_round (haversine_distance_m 12.9166 77.6101 12.9716 77.5946 * 1.2 / 13.9) 1"
    by (simp add: suggest_text_route_def py_then_def example_text_request_def geocode_btm
        geocode_mg google_manager_route google_locals rally_multiplied geo_def Let_def
        mock_steps_are_dicts)
  show "case suggest_text_route no_parse (MapboxGeocoder_init None) no_remote
           (RouterManager_init (example_config None (Some ''g-key'') GOOGLE_MAPS)
              (reply_clients google_reply))
           same_point_text_request of
      Inl e \<Rightarrow> False
    | Inr r \<Rightarrow> distance_meters r = 0 \<and> duration_seconds r = 0"
    by (simp add: suggest_text_route_def py_then_def same_point_text_request_def geocode_mg
        geocode_cubbon google_manager_route google_locals rally_multiplied geo_def Let_def
        mock_steps_are_dicts haversine_same_point py_round_def)
qed

end
